theory Spec2Isabelle
  imports Main
begin

section \<open>Strings\<close>

text \<open>
  A JavaScript string is a sequence of code units. The model uses HOL strings, one
  \<^typ>\<open>char\<close> per code unit, which covers the code units 0 to 255; every string
  constant of the program lies in that range. Accented letters are written by their code
  (\<open>CHR 0xE3\<close> is a-tilde).
\<close>

text \<open>\<^verbatim>\<open>s.startsWith(p)\<close>\<close>

fun startsWith :: "string \<Rightarrow> string \<Rightarrow> bool" where
  "startsWith s [] = True"
| "startsWith [] (p # ps) = False"
| "startsWith (c # cs) (p # ps) = (c = p \<and> startsWith cs ps)"

text \<open>\<^verbatim>\<open>s.replace(p, r)\<close> with a string pattern: the first occurrence only.\<close>

fun replace_first :: "string \<Rightarrow> string \<Rightarrow> string \<Rightarrow> string" where
  "replace_first [] p r = (if p = [] then r else [])"
| "replace_first (c # cs) p r =
     (if startsWith (c # cs) p then r @ drop (length p) (c # cs)
      else c # replace_first cs p r)"

text \<open>\<^verbatim>\<open>s.replace(/c/g, r)\<close> for a one-character pattern: every occurrence.\<close>

fun replace_all_char :: "string \<Rightarrow> char \<Rightarrow> string \<Rightarrow> string" where
  "replace_all_char [] c r = []"
| "replace_all_char (x # xs) c r =
     (if x = c then r @ replace_all_char xs c r else x # replace_all_char xs c r)"

text \<open>
  \<^verbatim>\<open>s.trim()\<close>: white space and line terminators are removed at both ends. In the
  range of the model these are TAB, LF, VT, FF, CR, SPACE and NBSP.
\<close>

definition is_space :: "char \<Rightarrow> bool" where
  "is_space c = (c \<in> {CHR 0x09, CHR 0x0A, CHR 0x0B, CHR 0x0C, CHR 0x0D, CHR 0x20, CHR 0xA0})"

definition trim :: "string \<Rightarrow> string" where
  "trim s = rev (dropWhile is_space (rev (dropWhile is_space s)))"

text \<open>The regular expression class \<^verbatim>\<open>\w\<close>: \<^verbatim>\<open>[A-Za-z0-9_]\<close>.\<close>

definition is_word_char :: "char \<Rightarrow> bool" where
  "is_word_char c =
     (c \<in> set ''ABCDEFGHIJKLMNOPQRSTUVWXYZabcdefghijklmnopqrstuvwxyz0123456789_'')"

text \<open>Decimal digits of an integer literal, as JavaScript prints an integer-valued number.\<close>

definition digit_char :: "nat \<Rightarrow> char" where
  "digit_char d = ''0123456789abcdef'' ! d"

fun show_nat :: "nat \<Rightarrow> string" where
  "show_nat n =
     (if n < 10 then [digit_char n] else show_nat (n div 10) @ [digit_char (n mod 10)])"

declare show_nat.simps [simp del]

definition show_int :: "int \<Rightarrow> string" where
  "show_int i = (if i < 0 then CHR ''-'' # show_nat (nat (- i)) else show_nat (nat i))"

section \<open>JavaScript values\<close>

text \<open>
  The values the server handles are the results of \<^verbatim>\<open>JSON.parse\<close>, together with
  \<^verbatim>\<open>undefined\<close> for what is absent. Numbers are IEEE doubles in the runtime; the
  model keeps their type \<open>'n\<close> and their operations as parameters (record \<open>env\<close> below).
  An object is the list of its own properties in insertion order; a parsed object has no
  duplicate keys. Every parsed object inherits the members of \<^verbatim>\<open>Object.prototype\<close>;
  \<open>JBuiltin k\<close> is the member named \<open>k\<close> as a property read finds it: a built-in
  function, and for \<open>__proto__\<close> the object \<^verbatim>\<open>Object.prototype\<close> itself.
\<close>

datatype 'n jsval =
    JUndef
  | JNull
  | JBool bool
  | JNum 'n
  | JStr string
  | JArr "'n jsval list"
  | JObj "(string \<times> 'n jsval) list"
  | JBuiltin string

definition Object_prototype_keys :: "string list" where
  "Object_prototype_keys =
     [''constructor'', ''__defineGetter__'', ''__defineSetter__'', ''hasOwnProperty'',
      ''__lookupGetter__'', ''__lookupSetter__'', ''isPrototypeOf'', ''propertyIsEnumerable'',
      ''toString'', ''valueOf'', ''__proto__'', ''toLocaleString'']"

text \<open>What every built-in function has, of its own or from \<^verbatim>\<open>Function.prototype\<close>.\<close>

definition Function_keys :: "string list" where
  "Function_keys =
     [''length'', ''name'', ''arguments'', ''caller'', ''apply'', ''bind'', ''call'',
      ''constructor'', ''toString'']"

fun typeof :: "'n jsval \<Rightarrow> string" where
  "typeof JUndef = ''undefined''"
| "typeof JNull = ''object''"
| "typeof (JBool b) = ''boolean''"
| "typeof (JNum n) = ''number''"
| "typeof (JStr s) = ''string''"
| "typeof (JArr xs) = ''object''"
| "typeof (JObj ps) = ''object''"
| "typeof (JBuiltin k) = (if k = ''__proto__'' then ''object'' else ''function'')"

text \<open>
  Property read \<^verbatim>\<open>v.k\<close>, \<^verbatim>\<open>v[k]\<close>, \<^verbatim>\<open>v?.k\<close> and destructuring. On an object the
  read finds an own property first and then a member of \<^verbatim>\<open>Object.prototype\<close>; read
  from \<^verbatim>\<open>Object.prototype\<close> itself, \<open>__proto__\<close> is \<^verbatim>\<open>null\<close>. From arrays, primitives
  and built-in functions the program reads only the keys \<open>id\<close>, \<open>method\<close>, \<open>params\<close>,
  \<open>name\<close>, \<open>arguments\<close>, \<open>op\<close>, \<open>a\<close>, \<open>b\<close>, \<open>uri\<close> and \<open>clientInfo\<close> (the
  validator reads properties of objects only); none of them is a member of a built-in
  prototype, an array index or \<open>length\<close>, so there the read gives \<^verbatim>\<open>undefined\<close>. Reading
  a property of \<^verbatim>\<open>null\<close> or \<^verbatim>\<open>undefined\<close> without \<^verbatim>\<open>?.\<close> throws; each such place is
  a branch of the function that does it.
\<close>

definition inherited :: "string \<Rightarrow> 'n jsval" where
  "inherited k = (if k \<in> set Object_prototype_keys then JBuiltin k else JUndef)"

fun get_prop :: "'n jsval \<Rightarrow> string \<Rightarrow> 'n jsval" where
  "get_prop (JObj ps) k = (case map_of ps k of None \<Rightarrow> inherited k | Some v \<Rightarrow> v)"
| "get_prop (JBuiltin b) k =
     (if b = ''__proto__'' then (if k = ''__proto__'' then JNull else inherited k) else JUndef)"
| "get_prop v k = JUndef"

text \<open>\<^verbatim>\<open>v ?? d\<close>\<close>

fun nullish_or :: "'n jsval \<Rightarrow> 'n jsval \<Rightarrow> 'n jsval" where
  "nullish_or JUndef d = d"
| "nullish_or JNull d = d"
| "nullish_or v d = v"

text \<open>The exceptions of the runtime that the program can meet.\<close>

datatype type_error =
    Not_a_function
  | In_on_primitive
  | No_primitive_value
  | Destructure_nullish

datatype exn = TypeError type_error | SystemError string

text \<open>
  \<^verbatim>\<open>k in v\<close>: true for an own property of an object and for a member inherited from
  \<^verbatim>\<open>Object.prototype\<close>; it throws on a primitive. On an array the program asks only for
  the key \<open>name\<close> (the required key of the registered prompt), which no array has. The
  program never asks a built-in function: the validator applies \<^verbatim>\<open>in\<close> only to a value
  whose \<^verbatim>\<open>typeof\<close> is \<open>object\<close>, and the arguments of \<^verbatim>\<open>prompts/get\<close> are parsed
  data; the equation lists what every built-in function has.
\<close>

fun js_in :: "string \<Rightarrow> 'n jsval \<Rightarrow> exn + bool" where
  "js_in k (JObj ps) = Inr (map_of ps k \<noteq> None \<or> k \<in> set Object_prototype_keys)"
| "js_in k (JArr xs) = Inr False"
| "js_in k (JBuiltin b) =
     (if b = ''__proto__'' then Inr (k \<in> set Object_prototype_keys)
      else Inr (k \<in> set Function_keys \<or> k \<in> set Object_prototype_keys))"
| "js_in k v = Inl (TypeError In_on_primitive)"

text \<open>
  \<^verbatim>\<open>String(v)\<close> and \<^verbatim>\<open>${v}\<close>. An array joins its elements with commas, \<^verbatim>\<open>null\<close> and
  \<^verbatim>\<open>undefined\<close> elements as empty strings. A parsed object prints as
  \<^verbatim>\<open>[object Object]\<close>, unless it has an own property \<open>toString\<close>: that value is not
  callable, \<^verbatim>\<open>valueOf\<close> gives no primitive either, and the conversion throws. A
  built-in function prints as its native source text.
\<close>

fun to_String :: "('n \<Rightarrow> string) \<Rightarrow> 'n jsval \<Rightarrow> exn + string"
  and join_elems :: "('n \<Rightarrow> string) \<Rightarrow> 'n jsval list \<Rightarrow> exn + string" where
  "to_String f JUndef = Inr ''undefined''"
| "to_String f JNull = Inr ''null''"
| "to_String f (JBool b) = Inr (if b then ''true'' else ''false'')"
| "to_String f (JNum n) = Inr (f n)"
| "to_String f (JStr s) = Inr s"
| "to_String f (JArr xs) = join_elems f xs"
| "to_String f (JObj ps) =
     (if map_of ps ''toString'' \<noteq> None then Inl (TypeError No_primitive_value)
      else Inr ''[object Object]'')"
| "to_String f (JBuiltin k) =
     Inr (if k = ''__proto__'' then ''[object Object]''
          else ''function '' @ (if k = ''constructor'' then ''Object'' else k)
                 @ ''() { [native code] }'')"
| "join_elems f [] = Inr []"
| "join_elems f (x # xs) =
     (case (if x = JUndef \<or> x = JNull then Inr [] else to_String f x) of
        Inl e \<Rightarrow> Inl e
      | Inr s \<Rightarrow>
          (if xs = [] then Inr s
           else (case join_elems f xs of Inl e \<Rightarrow> Inl e | Inr t \<Rightarrow> Inr (s @ '','' @ t))))"

section \<open>Serialisation\<close>

text \<open>
  \<^verbatim>\<open>JSON.stringify\<close>: a string is quoted with the escapes of the standard; a property
  whose value is \<^verbatim>\<open>undefined\<close> is left out of its object, an \<^verbatim>\<open>undefined\<close> array
  element is written \<^verbatim>\<open>null\<close>; how a number is written is the runtime's (\<open>f\<close>). A
  function is treated as \<^verbatim>\<open>undefined\<close>, and \<^verbatim>\<open>Object.prototype\<close> has no enumerable
  property.
\<close>

definition escape_char :: "char \<Rightarrow> string" where
  "escape_char c =
     (if c = CHR 0x22 then [CHR 0x5C, CHR 0x22]
      else if c = CHR 0x5C then [CHR 0x5C, CHR 0x5C]
      else if c = CHR 0x08 then [CHR 0x5C, CHR ''b'']
      else if c = CHR 0x09 then [CHR 0x5C, CHR ''t'']
      else if c = CHR 0x0A then [CHR 0x5C, CHR ''n'']
      else if c = CHR 0x0C then [CHR 0x5C, CHR ''f'']
      else if c = CHR 0x0D then [CHR 0x5C, CHR ''r'']
      else if (of_char c :: nat) < 32
      then [CHR 0x5C, CHR ''u'', CHR ''0'', CHR ''0'',
            digit_char ((of_char c :: nat) div 16), digit_char ((of_char c :: nat) mod 16)]
      else [c])"

definition json_quote :: "string \<Rightarrow> string" where
  "json_quote s = CHR 0x22 # concat (map escape_char s) @ [CHR 0x22]"

fun join_comma :: "string list \<Rightarrow> string" where
  "join_comma [] = []"
| "join_comma [s] = s"
| "join_comma (s # t # ts) = s @ '','' @ join_comma (t # ts)"

fun stringify :: "('n \<Rightarrow> string) \<Rightarrow> 'n jsval \<Rightarrow> string option"
  and stringify_elems :: "('n \<Rightarrow> string) \<Rightarrow> 'n jsval list \<Rightarrow> string list"
  and stringify_members :: "('n \<Rightarrow> string) \<Rightarrow> (string \<times> 'n jsval) list \<Rightarrow> string list" where
  "stringify f JUndef = None"
| "stringify f JNull = Some ''null''"
| "stringify f (JBool b) = Some (if b then ''true'' else ''false'')"
| "stringify f (JNum n) = Some (f n)"
| "stringify f (JStr s) = Some (json_quote s)"
| "stringify f (JArr xs) = Some (''['' @ join_comma (stringify_elems f xs) @ '']'')"
| "stringify f (JObj ps) = Some (''{'' @ join_comma (stringify_members f ps) @ ''}'')"
| "stringify f (JBuiltin k) = (if k = ''__proto__'' then Some ''{}'' else None)"
| "stringify_elems f [] = []"
| "stringify_elems f (x # xs) =
     (case stringify f x of None \<Rightarrow> ''null'' | Some s \<Rightarrow> s) # stringify_elems f xs"
| "stringify_members f [] = []"
| "stringify_members f ((k, v) # ps) =
     (case stringify f v of
        None \<Rightarrow> stringify_members f ps
      | Some s \<Rightarrow> (json_quote k @ '':'' @ s) # stringify_members f ps)"

section \<open>The runtime\<close>

text \<open>
  What the program takes from Node.js: the arithmetic and printing of numbers, the text of
  a \<^verbatim>\<open>TypeError\<close>, the \<^verbatim>\<open>path\<close> module and the file system. A failing file system
  call gives \<open>Inl\<close> of the error's message.
\<close>

record 'n env =
  num_add :: "'n \<Rightarrow> 'n \<Rightarrow> 'n"
  num_sub :: "'n \<Rightarrow> 'n \<Rightarrow> 'n"
  num_mul :: "'n \<Rightarrow> 'n \<Rightarrow> 'n"
  num_div :: "'n \<Rightarrow> 'n \<Rightarrow> 'n"
  num_is_zero :: "'n \<Rightarrow> bool"
  num_is_NaN :: "'n \<Rightarrow> bool"
  num_same :: "'n \<Rightarrow> 'n \<Rightarrow> bool"
  num_String :: "'n \<Rightarrow> string"
  num_JSON :: "'n \<Rightarrow> string"
  type_error_message :: "type_error \<Rightarrow> string"
  path_sep :: string
  path_resolve :: "string \<Rightarrow> string"
  path_join :: "string \<Rightarrow> string \<Rightarrow> string"
  existsSync :: "string \<Rightarrow> bool"
  readdirSync :: "string \<Rightarrow> string + (string \<times> bool) list"
  readFileSync :: "string \<Rightarrow> string + string"

text \<open>\<open>num_is_zero n\<close> is \<^verbatim>\<open>n === 0\<close>; \<open>num_same\<close> is the comparison of \<^verbatim>\<open>includes\<close>.\<close>

definition exn_message :: "'n env \<Rightarrow> exn \<Rightarrow> string" where
  "exn_message env e = (case e of TypeError t \<Rightarrow> type_error_message env t | SystemError m \<Rightarrow> m)"

fun truthy :: "'n env \<Rightarrow> 'n jsval \<Rightarrow> bool" where
  "truthy env JUndef = False"
| "truthy env JNull = False"
| "truthy env (JBool b) = b"
| "truthy env (JNum n) = (\<not> (num_is_zero env n \<or> num_is_NaN env n))"
| "truthy env (JStr s) = (s \<noteq> [])"
| "truthy env (JArr xs) = True"
| "truthy env (JObj ps) = True"
| "truthy env (JBuiltin k) = True"

section \<open>Configuration and registries\<close>

definition PROTOCOL_VERSION :: string where
  "PROTOCOL_VERSION = ''2025-06-18''"

definition ROOTS :: "'n env \<Rightarrow> string list" where
  "ROOTS env = [path_resolve env ''demo-root'']"

text \<open>
  A schema of the dialect the program uses: \<open>type\<close>, \<open>required\<close>, \<open>properties\<close> and
  \<open>enum\<close>, each of them optional. The properties are listed in the order in which
  \<^verbatim>\<open>Object.entries\<close> gives them. A declared property may have no schema
  (\<^verbatim>\<open>null\<close>), which the validator accepts.
\<close>

datatype 'n schema =
  Schema (s_type: "string option")
         (s_required: "string list option")
         (s_properties: "(string \<times> 'n schema option) list option")
         (s_enum: "'n jsval list option")

record 'n tool =
  t_name :: string
  t_title :: string
  t_description :: string
  t_inputSchema :: "'n schema"

record 'n prompt =
  p_name :: string
  p_title :: string
  p_description :: string
  p_inputSchema :: "'n schema option"
  p_template :: string

definition tools :: "'n tool list" where
  "tools =
     [\<lparr> t_name = ''calculator_arithmetic'',
        t_title = ''Calculator (basic arithmetic)'',
        t_description =
          ''Soma, subtra'' @ [CHR 0xE7, CHR 0xE3] @ ''o, multiplica'' @ [CHR 0xE7, CHR 0xE3]
            @ ''o e divis'' @ [CHR 0xE3] @ ''o de dois n'' @ [CHR 0xFA] @ ''meros.'',
        t_inputSchema =
          Schema (Some ''object'') (Some [''op'', ''a'', ''b''])
            (Some [(''op'', Some (Schema (Some ''string'') None None
                      (Some [JStr ''add'', JStr ''sub'', JStr ''mul'', JStr ''div'']))),
                   (''a'', Some (Schema (Some ''number'') None None None)),
                   (''b'', Some (Schema (Some ''number'') None None None))])
            None \<rparr>]"

definition prompts :: "'n prompt list" where
  "prompts =
     [\<lparr> p_name = ''hello-template'',
        p_title = ''Hello Prompt'',
        p_description = ''Sauda'' @ [CHR 0xE7, CHR 0xE3] @ ''o com vari'' @ [CHR 0xE1]
          @ ''vel {{name}}'',
        p_inputSchema =
          Some (Schema (Some ''object'') (Some [''name''])
                  (Some [(''name'', Some (Schema (Some ''string'') None None None))]) None),
        p_template = ''Ol'' @ [CHR 0xE1] @ '', {{name}}! Bem-vindo ao Servidor MCP de demonstra''
          @ [CHR 0xE7, CHR 0xE3] @ ''o.'' \<rparr>]"

text \<open>The registries as the values that \<^verbatim>\<open>tools/list\<close> and \<^verbatim>\<open>prompts/list\<close> send.\<close>

fun schema_js :: "'n schema \<Rightarrow> 'n jsval"
  and properties_js :: "(string \<times> 'n schema option) list \<Rightarrow> (string \<times> 'n jsval) list" where
  "schema_js (Schema ty req props en) =
     JObj ((case ty of None \<Rightarrow> [] | Some t \<Rightarrow> [(''type'', JStr t)])
         @ (case req of None \<Rightarrow> [] | Some ks \<Rightarrow> [(''required'', JArr (map JStr ks))])
         @ (case props of None \<Rightarrow> [] | Some ps \<Rightarrow> [(''properties'', JObj (properties_js ps))])
         @ (case en of None \<Rightarrow> [] | Some vs \<Rightarrow> [(''enum'', JArr vs)]))"
| "properties_js [] = []"
| "properties_js ((k, None) # ps) = (k, JNull) # properties_js ps"
| "properties_js ((k, Some s) # ps) = (k, schema_js s) # properties_js ps"

definition tool_js :: "'n tool \<Rightarrow> 'n jsval" where
  "tool_js t =
     JObj [(''name'', JStr (t_name t)), (''title'', JStr (t_title t)),
           (''description'', JStr (t_description t)),
           (''inputSchema'', schema_js (t_inputSchema t))]"

section \<open>JSON-RPC utilities\<close>

text \<open>
  The four shapes of object the program passes to \<^verbatim>\<open>send\<close>: those of \<^verbatim>\<open>reply\<close>,
  \<^verbatim>\<open>error\<close> and \<^verbatim>\<open>notify\<close>, and the literal of the parse guard, which has neither an
  \<open>id\<close> nor a \<open>data\<close> property. The error code is an integer literal of the program.
\<close>

datatype 'n message =
    ReplyMsg "'n jsval" "'n jsval"
  | ErrorMsg "'n jsval" int string "'n jsval"
  | NotifyMsg string "'n jsval"
  | ParseErrorMsg

definition json_member :: "('n \<Rightarrow> string) \<Rightarrow> string \<Rightarrow> 'n jsval \<Rightarrow> string list" where
  "json_member f k v = (case stringify f v of None \<Rightarrow> [] | Some s \<Rightarrow> [json_quote k @ '':'' @ s])"

definition braces :: "string list \<Rightarrow> string" where
  "braces ms = ''{'' @ join_comma ms @ ''}''"

definition jsonrpc_member :: string where
  "jsonrpc_member = json_quote ''jsonrpc'' @ '':'' @ json_quote ''2.0''"

fun stringify_message :: "('n \<Rightarrow> string) \<Rightarrow> 'n message \<Rightarrow> string" where
  "stringify_message f (ReplyMsg i r) =
     braces ([jsonrpc_member] @ json_member f ''id'' i @ json_member f ''result'' r)"
| "stringify_message f (ErrorMsg i c m d) =
     braces ([jsonrpc_member] @ json_member f ''id'' i
       @ [json_quote ''error'' @ '':''
           @ braces ([json_quote ''code'' @ '':'' @ show_int c,
                      json_quote ''message'' @ '':'' @ json_quote m] @ json_member f ''data'' d)])"
| "stringify_message f (NotifyMsg m p) =
     braces ([jsonrpc_member, json_quote ''method'' @ '':'' @ json_quote m] @ json_member f ''params'' p)"
| "stringify_message f ParseErrorMsg =
     braces [jsonrpc_member,
             json_quote ''error'' @ '':''
               @ braces [json_quote ''code'' @ '':'' @ show_int (- 32700),
                         json_quote ''message'' @ '':'' @ json_quote ''Parse error'']]"

text \<open>
  \<^verbatim>\<open>send(message)\<close> writes \<^verbatim>\<open>JSON.stringify(message) + "\\n"\<close> on the standard output.
  The string literal \<^verbatim>\<open>"\\n"\<close> of the source is an escaped backslash followed by the
  letter n. \<open>send env m\<close> is the text of that one write.
\<close>

definition send :: "'n env \<Rightarrow> 'n message \<Rightarrow> string" where
  "send env message = stringify_message (num_JSON env) message @ [CHR 0x5C, CHR ''n'']"

text \<open>
  What a handler does, in order: calls of \<^verbatim>\<open>send\<close> and of \<^verbatim>\<open>setTimeout\<close> (the delay
  and the messages its callback sends). A handler run is the list of its actions and the
  exception it threw, if any.
\<close>

datatype 'n action = Send "'n message" | SetTimeout nat "'n message list"

type_synonym 'n run = "'n action list \<times> exn option"

text \<open>The messages sent at once, and those left to a timer.\<close>

fun sent :: "'n action list \<Rightarrow> 'n message list" where
  "sent [] = []"
| "sent (Send m # acts) = m # sent acts"
| "sent (SetTimeout t ms # acts) = sent acts"

fun deferred :: "'n action list \<Rightarrow> 'n message list" where
  "deferred [] = []"
| "deferred (Send m # acts) = deferred acts"
| "deferred (SetTimeout t ms # acts) = ms @ deferred acts"

definition stdout_text :: "'n env \<Rightarrow> 'n action list \<Rightarrow> string" where
  "stdout_text env acts = concat (map (send env) (sent acts))"

definition reply :: "'n jsval \<Rightarrow> 'n jsval \<Rightarrow> 'n run" where
  "reply i result = ([Send (ReplyMsg i result)], None)"

definition error :: "'n jsval \<Rightarrow> int \<Rightarrow> string \<Rightarrow> 'n jsval \<Rightarrow> 'n run" where
  "error i code message data = ([Send (ErrorMsg i code message data)], None)"

definition notify :: "string \<Rightarrow> 'n jsval \<Rightarrow> 'n message" where
  "notify method params = NotifyMsg method params"

definition throw :: "exn \<Rightarrow> 'n run" where
  "throw e = ([], Some e)"

section \<open>The MCP methods\<close>

definition handleInitialize :: "'n env \<Rightarrow> 'n jsval \<Rightarrow> 'n jsval \<Rightarrow> 'n run" where
  "handleInitialize env i params =
     (let clientInfo = nullish_or (get_prop params ''clientInfo'') (JObj []);
          result = JObj
            [(''protocolVersion'', JStr PROTOCOL_VERSION),
             (''serverInfo'', JObj [(''name'', JStr ''mcp-server-demo''), (''version'', JStr ''0.1.0'')]),
             (''capabilities'', JObj
                [(''tools'', JObj [(''listChanged'', JBool True)]),
                 (''resources'', JObj [(''listChanged'', JBool True)]),
                 (''prompts'', JObj [(''listChanged'', JBool True)])])]
      in (fst (reply i result)
            @ [SetTimeout 5000
                 [notify ''notifications/tools/list_changed'' (JObj []),
                  notify ''notifications/resources/list_changed'' (JObj []),
                  notify ''notifications/prompts/list_changed'' (JObj [])]],
          None))"

definition handleToolsList :: "'n jsval \<Rightarrow> 'n run" where
  "handleToolsList i = reply i (JObj [(''tools'', JArr (map tool_js tools))])"

definition tool_result :: "'n env \<Rightarrow> 'n \<Rightarrow> 'n jsval" where
  "tool_result env v =
     JObj [(''content'', JArr [JObj [(''type'', JStr ''text''), (''text'', JStr (num_String env v))]]),
           (''meta'', JObj [(''value'', JNum v)])]"

definition handleToolsCall :: "'n env \<Rightarrow> 'n jsval \<Rightarrow> 'n jsval \<Rightarrow> 'n run" where
  "handleToolsCall env i params =
     (let p = nullish_or params (JObj []);
          name = get_prop p ''name'';
          args = get_prop p ''arguments''
      in if name = JStr ''calculator_arithmetic'' then
           (let q = nullish_or args (JObj []);
                op = get_prop q ''op'';
                a = get_prop q ''a'';
                b = get_prop q ''b''
            in case (a, b) of
                 (JNum x, JNum y) \<Rightarrow>
                   if op = JStr ''add'' then reply i (tool_result env (num_add env x y))
                   else if op = JStr ''sub'' then reply i (tool_result env (num_sub env x y))
                   else if op = JStr ''mul'' then reply i (tool_result env (num_mul env x y))
                   else if op = JStr ''div'' then
                     (if num_is_zero env y
                      then error i (- 32000) (''Divis'' @ [CHR 0xE3] @ ''o por zero'') JUndef
                      else reply i (tool_result env (num_div env x y)))
                   else error i (- 32602) (''Opera'' @ [CHR 0xE7, CHR 0xE3] @ ''o inv'' @ [CHR 0xE1] @ ''lida'')
                          (JObj [(''allowed'', JArr [JStr ''add'', JStr ''sub'', JStr ''mul'', JStr ''div''])])
               | _ \<Rightarrow>
                   error i (- 32602) (''Par'' @ [CHR 0xE2] @ ''metros inv'' @ [CHR 0xE1] @ ''lidos'')
                     (JObj [(''expected'', JStr ''numbers a,b'')]))
         else
           (case to_String (num_String env) name of
              Inl e \<Rightarrow> throw e
            | Inr s \<Rightarrow> error i (- 32601) (''Tool n'' @ [CHR 0xE3] @ ''o encontrada: '' @ s) JUndef))"

text \<open>\<^verbatim>\<open>scanResources\<close>: the regular files directly under each root that exists.\<close>

definition resource_js :: "'n env \<Rightarrow> string \<Rightarrow> string \<Rightarrow> 'n jsval" where
  "resource_js env root name =
     JObj [(''uri'', JStr (''file://'' @ path_join env root name)),
           (''mimeType'', JStr ''text/plain''),
           (''name'', JStr name),
           (''description'', JStr (''Arquivo de demonstra'' @ [CHR 0xE7, CHR 0xE3] @ ''o''))]"

fun scan_roots :: "'n env \<Rightarrow> string list \<Rightarrow> exn + 'n jsval list" where
  "scan_roots env [] = Inr []"
| "scan_roots env (root # roots) =
     (if \<not> existsSync env root then scan_roots env roots
      else (case readdirSync env root of
              Inl m \<Rightarrow> Inl (SystemError m)
            | Inr entries \<Rightarrow>
                (case scan_roots env roots of
                   Inl e \<Rightarrow> Inl e
                 | Inr out \<Rightarrow>
                     Inr (map (\<lambda>e. resource_js env root (fst e)) (filter snd entries) @ out))))"

definition scanResources :: "'n env \<Rightarrow> exn + 'n jsval list" where
  "scanResources env = scan_roots env (ROOTS env)"

definition handleResourcesList :: "'n env \<Rightarrow> 'n jsval \<Rightarrow> 'n run" where
  "handleResourcesList env i =
     (case scanResources env of
        Inl e \<Rightarrow> throw e
      | Inr out \<Rightarrow> reply i (JObj [(''resources'', JArr out)]))"

text \<open>The containment test of \<^verbatim>\<open>resources/read\<close>:
  \<^verbatim>\<open>ROOTS.some(root => filePath.startsWith(root + pathMod.sep))\<close>.\<close>

definition allowed :: "string \<Rightarrow> string list \<Rightarrow> string \<Rightarrow> bool" where
  "allowed sep roots filePath = list_ex (\<lambda>root. startsWith filePath (root @ sep)) roots"

definition handleResourcesRead :: "'n env \<Rightarrow> 'n jsval \<Rightarrow> 'n jsval \<Rightarrow> 'n run" where
  "handleResourcesRead env i params =
     (let uri = get_prop params ''uri''
      in if \<not> truthy env uri
         then error i (- 32602) (''URI inv'' @ [CHR 0xE1] @ ''lida. Use file://'') JUndef
         else
           (case uri of
              JStr u \<Rightarrow>
                if \<not> startsWith u ''file://''
                then error i (- 32602) (''URI inv'' @ [CHR 0xE1] @ ''lida. Use file://'') JUndef
                else
                  (let filePath = replace_first u ''file://'' []
                   in if \<not> allowed (path_sep env) (ROOTS env) filePath
                      then error i (- 32001) (''Fora das ra'' @ [CHR 0xED] @ ''zes permitidas (roots).'') JUndef
                      else
                        (case readFileSync env filePath of
                           Inr data \<Rightarrow>
                             reply i (JObj [(''contents'', JArr [JObj
                               [(''mimeType'', JStr ''text/plain''), (''uri'', uri), (''text'', JStr data)]])])
                         | Inl m \<Rightarrow>
                             error i (- 32002) ''Falha ao ler recurso'' (JObj [(''message'', JStr m)])))
            | _ \<Rightarrow> throw (TypeError Not_a_function)))"

definition prompt_js :: "'n prompt \<Rightarrow> 'n jsval" where
  "prompt_js p =
     JObj [(''name'', JStr (p_name p)), (''title'', JStr (p_title p)),
           (''description'', JStr (p_description p)),
           (''inputSchema'', (case p_inputSchema p of None \<Rightarrow> JUndef | Some s \<Rightarrow> schema_js s))]"

definition handlePromptsList :: "'n jsval \<Rightarrow> 'n run" where
  "handlePromptsList i = reply i (JObj [(''prompts'', JArr (map prompt_js prompts))])"

text \<open>\<^verbatim>\<open>required.some(k => !(k in vars))\<close>: stops at the first missing key, and throws
  where \<^verbatim>\<open>in\<close> does.\<close>

fun some_missing :: "string list \<Rightarrow> 'n jsval \<Rightarrow> exn + bool" where
  "some_missing [] vars = Inr False"
| "some_missing (k # ks) vars =
     (case js_in k vars of
        Inl e \<Rightarrow> Inl e
      | Inr present \<Rightarrow> if \<not> present then Inr True else some_missing ks vars)"

text \<open>
  \<^verbatim>\<open>template.replace(/\{\{(\w+)\}\}/g, (_, k) => String(vars[k] ?? ""))\<close>. A match at the
  head of \<open>s\<close> is two opening braces, the longest non-empty run of word characters and two
  closing braces; \<open>placeholder s\<close> gives the key and the text after the match. The scan goes
  on after each match: what is inserted is not scanned again.
\<close>

definition placeholder :: "string \<Rightarrow> (string \<times> string) option" where
  "placeholder s =
     (if startsWith s ''{{'' then
        (let k = takeWhile is_word_char (drop 2 s);
             rest = dropWhile is_word_char (drop 2 s)
         in if k \<noteq> [] \<and> startsWith rest ''}}'' then Some (k, drop 2 rest) else None)
      else None)"

function render :: "('n \<Rightarrow> string) \<Rightarrow> string \<Rightarrow> 'n jsval \<Rightarrow> exn + string" where
  "render f [] vars = Inr []"
| "render f (c # cs) vars =
     (case placeholder (c # cs) of
        Some (k, rest) \<Rightarrow>
          (case to_String f (nullish_or (get_prop vars k) (JStr [])) of
             Inl e \<Rightarrow> Inl e
           | Inr s \<Rightarrow> (case render f rest vars of Inl e \<Rightarrow> Inl e | Inr t \<Rightarrow> Inr (s @ t)))
      | None \<Rightarrow> (case render f cs vars of Inl e \<Rightarrow> Inl e | Inr t \<Rightarrow> Inr (c # t)))"
  by pat_completeness auto
termination
proof (relation "measure (\<lambda>(f, s, vars). length s)")
  show "wf (measure (\<lambda>(f :: 'n \<Rightarrow> string, s :: string, vars :: 'n jsval). length s))"
    by simp
next
  fix f :: "'n \<Rightarrow> string" and c cs and vars :: "'n jsval" and x2 k rest s
  assume a: "placeholder (c # cs) = Some x2" "(k, rest) = x2"
  have "length (dropWhile is_word_char (drop 2 (c # cs))) \<le> length (drop 2 (c # cs))"
    by (rule length_dropWhile_le)
  moreover from a have "rest = drop 2 (dropWhile is_word_char (drop 2 (c # cs)))"
    by (auto simp: placeholder_def Let_def split: if_splits)
  ultimately have "length rest < length (c # cs)"
    by simp
  then show "((f, rest, vars), f, c # cs, vars) \<in> measure (\<lambda>(f, s, vars). length s)"
    by simp
next
  fix f :: "'n \<Rightarrow> string" and c cs and vars :: "'n jsval"
  show "((f, cs, vars), f, c # cs, vars) \<in> measure (\<lambda>(f, s, vars). length s)"
    by simp
qed

definition handlePromptsGet :: "'n env \<Rightarrow> 'n jsval \<Rightarrow> 'n jsval \<Rightarrow> 'n run" where
  "handlePromptsGet env i params =
     (let name = get_prop params ''name''
      in case find (\<lambda>p. JStr (p_name p) = name) (prompts :: 'n prompt list) of
           None \<Rightarrow>
             (case to_String (num_String env) name of
                Inl e \<Rightarrow> throw e
              | Inr s \<Rightarrow> error i (- 32601) (''Prompt n'' @ [CHR 0xE3] @ ''o encontrado: '' @ s) JUndef)
         | Some prompt \<Rightarrow>
             (let vars = nullish_or (get_prop params ''arguments'') (JObj []);
                  required = (case p_inputSchema prompt of None \<Rightarrow> None | Some s \<Rightarrow> s_required s)
              in case (case required of None \<Rightarrow> Inr False | Some ks \<Rightarrow> some_missing ks vars) of
                   Inl e \<Rightarrow> throw e
                 | Inr True \<Rightarrow>
                     error i (- 32602) ''Argumentos ausentes para o prompt''
                       (JObj [(''required'', JArr (map JStr (the required)))])
                 | Inr False \<Rightarrow>
                     (case render (num_String env) (p_template prompt) vars of
                        Inl e \<Rightarrow> throw e
                      | Inr rendered \<Rightarrow>
                          reply i (JObj [(''prompt'', JObj
                            [(''name'', JStr (p_name prompt)),
                             (''messages'', JArr [JObj [(''role'', JStr ''system''),
                                                        (''content'', JStr rendered)]])])]))))"

section \<open>The JSON-RPC loop\<close>

text \<open>
  The body of the \<^verbatim>\<open>try\<close> of the line handler: the switch on \<^verbatim>\<open>method\<close>. The message
  of the default case is built only when \<^verbatim>\<open>id\<close> is not \<^verbatim>\<open>undefined\<close>.
\<close>

definition route :: "'n env \<Rightarrow> 'n jsval \<Rightarrow> 'n jsval \<Rightarrow> 'n jsval \<Rightarrow> 'n run" where
  "route env i method params =
     (if method = JStr ''initialize'' then handleInitialize env i params
      else if method = JStr ''tools/list'' then handleToolsList i
      else if method = JStr ''tools/call'' then handleToolsCall env i params
      else if method = JStr ''resources/list'' then handleResourcesList env i
      else if method = JStr ''resources/read'' then handleResourcesRead env i params
      else if method = JStr ''prompts/list'' then handlePromptsList i
      else if method = JStr ''prompts/get'' then handlePromptsGet env i params
      else if i \<noteq> JUndef then
        (case to_String (num_String env) method of
           Inl e \<Rightarrow> throw e
         | Inr s \<Rightarrow> error i (- 32601) (''Method not found: '' @ s) JUndef)
      else ([], None))"

text \<open>The \<^verbatim>\<open>try\<close> with its \<^verbatim>\<open>catch\<close>: the actions of one parsed message.\<close>

definition dispatch :: "'n env \<Rightarrow> 'n jsval \<Rightarrow> 'n jsval \<Rightarrow> 'n jsval \<Rightarrow> 'n action list" where
  "dispatch env i method params =
     (case route env i method params of
        (acts, None) \<Rightarrow> acts
      | (acts, Some err) \<Rightarrow>
          if i \<noteq> JUndef
          then acts @ fst (error i (- 32603) ''Internal error''
                             (JObj [(''message'', JStr (exn_message env err))]))
          else acts)"

text \<open>
  One \<^verbatim>\<open>line\<close> event. \<open>parsed\<close> is what \<^verbatim>\<open>JSON.parse(line)\<close> gives, \<open>None\<close> when it
  throws. Destructuring \<^verbatim>\<open>null\<close> throws outside the \<^verbatim>\<open>try\<close>: the exception is not
  caught and the process ends.
\<close>

datatype 'n outcome = Continue "'n action list" | Crash exn

definition on_line :: "'n env \<Rightarrow> string \<Rightarrow> 'n jsval option \<Rightarrow> 'n outcome" where
  "on_line env line parsed =
     (if trim line = [] then Continue []
      else (case parsed of
              None \<Rightarrow> Continue [Send ParseErrorMsg]
            | Some msg \<Rightarrow>
                if msg = JNull \<or> msg = JUndef then Crash (TypeError Destructure_nullish)
                else Continue (dispatch env (get_prop msg ''id'') (get_prop msg ''method'')
                                 (get_prop msg ''params''))))"

text \<open>The lines of the input in order, each with the result of parsing it.\<close>

fun serve :: "'n env \<Rightarrow> (string \<times> 'n jsval option) list \<Rightarrow> 'n action list \<times> exn option" where
  "serve env [] = ([], None)"
| "serve env ((line, parsed) # rest) =
     (case on_line env line parsed of
        Continue acts \<Rightarrow> (acts @ fst (serve env rest), snd (serve env rest))
      | Crash e \<Rightarrow> ([], Some e))"

section \<open>The structural validator\<close>

text \<open>\<^verbatim>\<open>str.replace(/~/g, '~0').replace(/\//g, '~1')\<close>\<close>

definition escapeJsonPointer :: "string \<Rightarrow> string" where
  "escapeJsonPointer str = replace_all_char (replace_all_char str CHR ''~'' ''~0'') CHR ''/'' ''~1''"

text \<open>The error records of the validator: \<^verbatim>\<open>{ instancePath, keyword, params, message }\<close>.\<close>

datatype 'n error_params =
    P_type string
  | P_missingProperty string
  | P_allowedValues "'n jsval list"

record 'n schema_error =
  e_instancePath :: string
  e_keyword :: string
  e_params :: "'n error_params"
  e_message :: string

definition type_error_at :: "string \<Rightarrow> string \<Rightarrow> 'n schema_error" where
  "type_error_at path t =
     \<lparr> e_instancePath = path, e_keyword = ''type'', e_params = P_type t,
       e_message = ''must be '' @ t \<rparr>"

definition required_error_at :: "string \<Rightarrow> string \<Rightarrow> 'n schema_error" where
  "required_error_at path key =
     \<lparr> e_instancePath = path, e_keyword = ''required'', e_params = P_missingProperty key,
       e_message = ''must have required property '' @ [CHR 0x27] @ key @ [CHR 0x27] \<rparr>"

definition enum_error_at :: "string \<Rightarrow> 'n jsval list \<Rightarrow> 'n schema_error" where
  "enum_error_at path vs =
     \<lparr> e_instancePath = path, e_keyword = ''enum'', e_params = P_allowedValues vs,
       e_message = ''must be equal to one of the allowed values'' \<rparr>"

text \<open>
  \<^verbatim>\<open>schema.enum.includes(value)\<close>: primitives are compared by value (numbers by the
  runtime); arrays and objects are compared by reference, and a parsed value is never the
  schema's own object; a built-in is the same as itself only.
\<close>

fun same_value :: "'n env \<Rightarrow> 'n jsval \<Rightarrow> 'n jsval \<Rightarrow> bool" where
  "same_value env JUndef JUndef = True"
| "same_value env JNull JNull = True"
| "same_value env (JBool a) (JBool b) = (a = b)"
| "same_value env (JNum a) (JNum b) = num_same env a b"
| "same_value env (JStr a) (JStr b) = (a = b)"
| "same_value env (JBuiltin a) (JBuiltin b) = (a = b)"
| "same_value env x y = False"

definition js_includes :: "'n env \<Rightarrow> 'n jsval list \<Rightarrow> 'n jsval \<Rightarrow> bool" where
  "js_includes env vs v = list_ex (\<lambda>m. same_value env m v) vs"

definition isArray :: "'n jsval \<Rightarrow> bool" where
  "isArray v = (case v of JArr xs \<Rightarrow> True | _ \<Rightarrow> False)"

text \<open>The loop over \<^verbatim>\<open>required\<close>: the state is \<^verbatim>\<open>valid\<close> and the \<^verbatim>\<open>errors\<close> array.\<close>

fun check_required ::
  "'n jsval \<Rightarrow> string \<Rightarrow> string list \<Rightarrow> bool \<times> 'n schema_error list \<Rightarrow> bool \<times> 'n schema_error list" where
  "check_required v path [] st = st"
| "check_required v path (key # keys) (valid, errors) =
     (if js_in key v \<noteq> Inr True
      then check_required v path keys (False, errors @ [required_error_at path key])
      else check_required v path keys (valid, errors))"

text \<open>The type test of a \<open>number\<close> or \<open>string\<close> schema, and the \<open>enum\<close> test after it.\<close>

definition isNaN :: "'n env \<Rightarrow> 'n jsval \<Rightarrow> bool" where
  "isNaN env v = (case v of JNum n \<Rightarrow> num_is_NaN env n | _ \<Rightarrow> False)"

definition check_type ::
  "'n env \<Rightarrow> 'n jsval \<Rightarrow> string option \<Rightarrow> string \<Rightarrow> 'n schema_error list \<Rightarrow> bool \<times> 'n schema_error list" where
  "check_type env v ty path errors =
     (if ty = Some ''number'' then
        (if typeof v \<noteq> ''number'' \<or> isNaN env v
         then (False, errors @ [type_error_at path ''number''])
         else (True, errors))
      else if ty = Some ''string'' then
        (if typeof v \<noteq> ''string''
         then (False, errors @ [type_error_at path ''string''])
         else (True, errors))
      else (True, errors))"

definition check_enum ::
  "'n env \<Rightarrow> 'n jsval \<Rightarrow> 'n jsval list option \<Rightarrow> string \<Rightarrow> bool \<times> 'n schema_error list
    \<Rightarrow> bool \<times> 'n schema_error list" where
  "check_enum env v en path st =
     (case en of
        Some vs \<Rightarrow>
          if \<not> js_includes env vs v then (False, snd st @ [enum_error_at path vs]) else st
      | None \<Rightarrow> st)"

definition child_path :: "string \<Rightarrow> string \<Rightarrow> string" where
  "child_path path key =
     (if path \<noteq> [] then path @ ''/'' @ escapeJsonPointer key else ''/'' @ escapeJsonPointer key)"

text \<open>
  \<^verbatim>\<open>validateAgainstSchema(value, schema, path, errors)\<close> returns the verdict and the
  \<^verbatim>\<open>errors\<close> array after its pushes. \<open>validate_properties\<close> is the loop over
  \<^verbatim>\<open>Object.entries(properties)\<close>.
\<close>

function validateAgainstSchema ::
    "'n env \<Rightarrow> 'n jsval \<Rightarrow> 'n schema option \<Rightarrow> string \<Rightarrow> 'n schema_error list
      \<Rightarrow> bool \<times> 'n schema_error list"
  and validate_properties ::
    "'n env \<Rightarrow> 'n jsval \<Rightarrow> (string \<times> 'n schema option) list \<Rightarrow> string
      \<Rightarrow> bool \<times> 'n schema_error list \<Rightarrow> bool \<times> 'n schema_error list" where
  "validateAgainstSchema env v None path errors = (True, errors)"
| "validateAgainstSchema env v (Some (Schema ty req props en)) path errors =
     (if ty = Some ''object'' then
        (if typeof v \<noteq> ''object'' \<or> v = JNull \<or> isArray v
         then (False, errors @ [type_error_at path ''object''])
         else validate_properties env v (case props of Some ps \<Rightarrow> ps | None \<Rightarrow> []) path
                (check_required v path (case req of Some keys \<Rightarrow> keys | None \<Rightarrow> []) (True, errors)))
      else check_enum env v en path (check_type env v ty path errors))"
| "validate_properties env v [] path st = st"
| "validate_properties env v ((key, childSchema) # rest) path (valid, errors) =
     (if js_in key v = Inr True then
        (case validateAgainstSchema env (get_prop v key) childSchema (child_path path key) errors of
           (ok, errors') \<Rightarrow>
             validate_properties env v rest path ((if \<not> ok then False else valid), errors'))
      else validate_properties env v rest path (valid, errors))"
  by pat_completeness auto
termination
  by (relation "measure (\<lambda>x. case x of
          Inl (env, v, so, path, errors) \<Rightarrow> size_option size so
        | Inr (env, v, props, path, st) \<Rightarrow> size_list (size_prod (\<lambda>k. 0) (size_option size)) props)")
     (auto split: option.splits)

text \<open>\<^verbatim>\<open>createSimpleValidator(schema)\<close>: the verdict and the \<^verbatim>\<open>errors\<close> side channel.\<close>

definition createSimpleValidator ::
  "'n env \<Rightarrow> 'n schema option \<Rightarrow> 'n jsval \<Rightarrow> bool \<times> 'n schema_error list option" where
  "createSimpleValidator env schema data =
     (case validateAgainstSchema env data schema [] [] of
        (isValid, errors) \<Rightarrow> (isValid, if errors \<noteq> [] then Some errors else None))"

section \<open>A runtime for closed examples\<close>

text \<open>
  The numbers of this runtime are the integers, which a double holds exactly below
  \<open>2^53\<close>, printed in decimal; its division is used only where it is exact. Paths are
  POSIX paths, the working directory is \<open>/srv\<close>, and the file system is empty.
\<close>

definition sample_env :: "int env" where
  "sample_env =
     \<lparr> num_add = (\<lambda>a b. a + b), num_sub = (\<lambda>a b. a - b), num_mul = (\<lambda>a b. a * b),
       num_div = (\<lambda>a b. a div b), num_is_zero = (\<lambda>n. n = 0), num_is_NaN = (\<lambda>n. False),
       num_same = (\<lambda>a b. a = b), num_String = show_int, num_JSON = show_int,
       type_error_message = (\<lambda>t. ''TypeError''),
       path_sep = ''/'', path_resolve = (\<lambda>p. ''/srv/'' @ p),
       path_join = (\<lambda>a b. a @ ''/'' @ b),
       existsSync = (\<lambda>p. False), readdirSync = (\<lambda>p. Inl ''ENOENT''),
       readFileSync = (\<lambda>p. Inl ''ENOENT'') \<rparr>"

section \<open>Notions used by the properties\<close>

text \<open>A text holds a placeholder when the pattern of \<open>render\<close> matches somewhere in it.\<close>

fun has_placeholder :: "string \<Rightarrow> bool" where
  "has_placeholder [] = False"
| "has_placeholder (c # cs) = (placeholder (c # cs) \<noteq> None \<or> has_placeholder cs)"

text \<open>The JSON Pointer escape of one character.\<close>

definition pointer_token :: "char \<Rightarrow> string" where
  "pointer_token c = (if c = CHR ''~'' then ''~0'' else if c = CHR ''/'' then ''~1'' else [c])"

text \<open>
  The results of validating, each on an empty error list, the declared properties that the
  value has, in the order of the declaration.
\<close>

definition sub_results ::
  "'n env \<Rightarrow> 'n jsval \<Rightarrow> (string \<times> 'n schema option) list \<Rightarrow> string
    \<Rightarrow> (bool \<times> 'n schema_error list) list" where
  "sub_results env v properties path =
     map (\<lambda>(key, childSchema).
            validateAgainstSchema env (get_prop v key) childSchema
              (path @ ''/'' @ concat (map pointer_token key)) [])
         (filter (\<lambda>(key, childSchema). js_in key v = Inr True) properties)"

text \<open>
  A response to the request \<open>i\<close> is a reply or an error that carries \<open>i\<close>. A run
  answers \<open>i\<close> once when it sends exactly one message at once, a response to \<open>i\<close>,
  and leaves only notifications to timers. A handler has \<open>handled\<close> the request when it
  returned after answering once, or threw before sending anything.
\<close>

definition is_response_to :: "'n jsval \<Rightarrow> 'n message \<Rightarrow> bool" where
  "is_response_to i m =
     (case m of ReplyMsg j r \<Rightarrow> j = i | ErrorMsg j c t d \<Rightarrow> j = i
      | NotifyMsg method p \<Rightarrow> False | ParseErrorMsg \<Rightarrow> False)"

definition is_notification :: "'n message \<Rightarrow> bool" where
  "is_notification m = (case m of NotifyMsg method p \<Rightarrow> True | _ \<Rightarrow> False)"

definition one_response :: "'n jsval \<Rightarrow> 'n action list \<Rightarrow> bool" where
  "one_response i acts =
     ((case sent acts of [m] \<Rightarrow> is_response_to i m | _ \<Rightarrow> False)
      \<and> list_all is_notification (deferred acts))"

definition handled :: "'n jsval \<Rightarrow> 'n run \<Rightarrow> bool" where
  "handled i r = (case r of (acts, None) \<Rightarrow> one_response i acts | (acts, Some e) \<Rightarrow> acts = [])"

section \<open>Evaluation and string lemmas\<close>

lemma show_nat_numeral:
  "show_nat (numeral k) =
     (if numeral k < (10::nat) then [digit_char (numeral k)]
      else show_nat (numeral k div 10) @ [digit_char (numeral k mod 10)])"
  by (rule show_nat.simps)

lemmas text_eval = send_def stdout_text_def braces_def jsonrpc_member_def json_member_def
  json_quote_def escape_char_def show_int_def show_nat_numeral digit_char_def

lemmas run_eval = dispatch_def route_def reply_def error_def throw_def notify_def
  inherited_def Object_prototype_keys_def

lemmas prompt_eval = handlePromptsGet_def prompts_def placeholder_def is_word_char_def
  inherited_def Object_prototype_keys_def


lemma startsWith_iff: "startsWith s p \<longleftrightarrow> (\<exists>rest. s = p @ rest)"
  by (induction s p rule: startsWith.induct) auto

lemma replace_first_prefix: "p \<noteq> [] \<Longrightarrow> replace_first (p @ rest) p r = r @ rest"
proof -
  assume "p \<noteq> []"
  then obtain c cs where p: "p = c # cs" by (cases p) auto
  have "startsWith (p @ rest) p" by (simp add: startsWith_iff)
  then show ?thesis by (simp add: p)
qed

section \<open>Transport\<close>

text \<open>
  C2. Every outgoing message is written as its JSON serialisation followed by one newline
  character, one message per output line. The program does not do this: what \<open>send\<close>
  appends is a backslash and the letter n, and no newline character is written. Shown on
  the reply to \<^verbatim>\<open>{"jsonrpc":"2.0","id":"a","method":"ping"}\<close>.
\<close>

theorem send_terminator_is_backslash_n:
  \<open>send env m = stringify_message (num_JSON env) m @ [CHR 0x5C, CHR ''n'']
   \<and> dispatch env (JStr ''a'') (JStr ''ping'') JUndef
       = [Send (ErrorMsg (JStr ''a'') (- 32601) ''Method not found: ping'' JUndef)]
   \<and> stdout_text env (dispatch env (JStr ''a'') (JStr ''ping'') JUndef)
       = ''{"jsonrpc":"2.0","id":"a","error":{"code":-32601,"message":"Method not found: ping"}}''
           @ [CHR 0x5C, CHR ''n'']
   \<and> CHR 0x0A \<notin> set (stdout_text env (dispatch env (JStr ''a'') (JStr ''ping'') JUndef))\<close>
proof -
  have d: "dispatch env (JStr ''a'') (JStr ''ping'') JUndef
       = [Send (ErrorMsg (JStr ''a'') (- 32601) ''Method not found: ping'' JUndef)]"
    by (simp add: run_eval)
  show ?thesis
    unfolding d by (simp add: text_eval)
qed

lemma serve_unparsed:
  "serve env (map (\<lambda>l. (l, None)) ls)
   = (replicate (length (filter (\<lambda>l. trim l \<noteq> []) ls)) (Send ParseErrorMsg), None)"
  by (induction ls) (simp_all add: on_line_def)

text \<open>
  C10. A line that is not blank and that \<^verbatim>\<open>JSON.parse\<close> rejects gets exactly one
  message, the parse error with code -32700, whose serialisation has no \<open>id\<close> member, and
  the loop goes on with the following lines: an input of rejected lines gets one such message
  for each line that is not blank, and the loop reaches its end. A line of white space only
  gets no output, whatever parsing it would give.
\<close>

theorem parse_failure:
  \<open>(trim line = [] \<longrightarrow>
       on_line env line parsed = Continue []
       \<and> serve env ((line, parsed) # rest) = serve env rest)
   \<and> (trim line \<noteq> [] \<longrightarrow>
       on_line env line None = Continue [Send ParseErrorMsg]
       \<and> serve env ((line, None) # rest)
           = (Send ParseErrorMsg # fst (serve env rest), snd (serve env rest)))
   \<and> stdout_text env [Send ParseErrorMsg]
       = ''{"jsonrpc":"2.0","error":{"code":-32700,"message":"Parse error"}}'' @ [CHR 0x5C, CHR ''n'']
   \<and> serve env (map (\<lambda>l. (l, None)) ls)
       = (replicate (length (filter (\<lambda>l. trim l \<noteq> []) ls)) (Send ParseErrorMsg), None)\<close>
proof -
  have a: "trim line = [] \<longrightarrow>
       on_line env line parsed = Continue []
       \<and> serve env ((line, parsed) # rest) = serve env rest"
    by (simp add: on_line_def)
  have b: "trim line \<noteq> [] \<longrightarrow>
       on_line env line None = Continue [Send ParseErrorMsg]
       \<and> serve env ((line, None) # rest)
           = (Send ParseErrorMsg # fst (serve env rest), snd (serve env rest))"
    by (simp add: on_line_def)
  have c: \<open>stdout_text env [Send ParseErrorMsg]
       = ''{"jsonrpc":"2.0","error":{"code":-32700,"message":"Parse error"}}'' @ [CHR 0x5C, CHR ''n'']\<close>
    by (simp add: text_eval)
  show ?thesis
    using a b c serve_unparsed [of env ls] by blast
qed

theorem parse_failure_witness:
  \<open>trim ''   '' = []
   \<and> on_line sample_env ''   '' None = Continue []
   \<and> trim ''{"id":1,'' \<noteq> []
   \<and> on_line sample_env ''{"id":1,'' None = Continue [Send ParseErrorMsg]
   \<and> serve sample_env [(''{"id":1,'', None), (''   '', None), (''{'', None)]
       = ([Send ParseErrorMsg, Send ParseErrorMsg], None)\<close>
proof -
  have a: "trim ''   '' = []" by (simp add: trim_def is_space_def)
  have b: \<open>trim ''{"id":1,'' \<noteq> []\<close> by (simp add: trim_def is_space_def)
  have c: "trim ''{'' \<noteq> []" by (simp add: trim_def is_space_def)
  note blank = parse_failure [of "''   ''" sample_env None "[(''{'', None)]" "[]"]
  note first = parse_failure [of \<open>''{"id":1,''\<close> sample_env None "[(''   '', None), (''{'', None)]" "[]"]
  note last = parse_failure [of "''{''" sample_env None "[]" "[]"]
  show ?thesis
    using a b c blank first last by simp
qed

section \<open>Dispatch\<close>

lemma handled_reply [simp]: "handled i (reply i r)"
  by (simp add: handled_def reply_def one_response_def is_response_to_def)

lemma handled_error [simp]: "handled i (error i c m d)"
  by (simp add: handled_def error_def one_response_def is_response_to_def)

lemma handled_throw [simp]: "handled i (throw e)"
  by (simp add: handled_def throw_def)

lemma handled_initialize: "handled i (handleInitialize env i params)"
  by (simp add: handleInitialize_def handled_def reply_def notify_def one_response_def
        is_response_to_def is_notification_def Let_def)

lemma handled_tools_list: "handled i (handleToolsList i)"
  by (simp add: handleToolsList_def)

lemma handled_tools_call: "handled i (handleToolsCall env i params)"
  by (simp add: handleToolsCall_def Let_def split: jsval.splits sum.splits)

lemma handled_resources_list: "handled i (handleResourcesList env i)"
  by (simp add: handleResourcesList_def split: sum.splits)

lemma handled_resources_read: "handled i (handleResourcesRead env i params)"
  by (simp add: handleResourcesRead_def Let_def split: jsval.splits sum.splits)

lemma handled_prompts_list: "handled i (handlePromptsList i)"
  by (simp add: handlePromptsList_def)

lemma handled_prompts_get: "handled i (handlePromptsGet env i params)"
  by (simp add: handlePromptsGet_def Let_def split: option.splits sum.splits bool.splits)

lemma handled_route: "i \<noteq> JUndef \<Longrightarrow> handled i (route env i method params)"
  by (simp add: route_def handled_initialize handled_tools_list handled_tools_call
        handled_resources_list handled_resources_read handled_prompts_list handled_prompts_get
        split: sum.splits)

lemma one_response_internal_error:
  "one_response i (fst (error i c m d))"
  by (simp add: error_def one_response_def is_response_to_def)

lemma one_response_dispatch: "i \<noteq> JUndef \<Longrightarrow> one_response i (dispatch env i method params)"
proof -
  assume i: "i \<noteq> JUndef"
  obtain acts ex where r: "route env i method params = (acts, ex)"
    by (cases "route env i method params")
  from handled_route [OF i, of env "method" "params"] r
  show ?thesis
    by (cases ex) (simp_all add: dispatch_def handled_def i one_response_internal_error)
qed

text \<open>
  C1. A parsed request line whose \<open>id\<close> is present gets exactly one response carrying that
  \<open>id\<close>, a reply or an error and never both, whatever the method and whatever the handler
  does (success, validation failure, exception); what the handler leaves to a timer are
  notifications.
\<close>

theorem exactly_one_response:
  "get_prop msg ''id'' = i \<and> i \<noteq> JUndef \<and> trim line \<noteq> [] \<longrightarrow>
     (\<exists>acts m.
        on_line env line (Some msg) = Continue acts
        \<and> acts = dispatch env i (get_prop msg ''method'') (get_prop msg ''params'')
        \<and> sent acts = [m]
        \<and> ((\<exists>r. m = ReplyMsg i r) \<or> (\<exists>c t d. m = ErrorMsg i c t d))
        \<and> list_all is_notification (deferred acts))"
proof (intro impI, elim conjE)
  assume id: "get_prop msg ''id'' = i" and i: "i \<noteq> JUndef" and line: "trim line \<noteq> []"
  let ?acts = "dispatch env i (get_prop msg ''method'') (get_prop msg ''params'')"
  from id i have msg: "msg \<noteq> JNull" "msg \<noteq> JUndef" by auto
  have a: "on_line env line (Some msg) = Continue ?acts"
    using line msg id by (simp add: on_line_def)
  have o: "one_response i ?acts" by (rule one_response_dispatch [OF i])
  then obtain m where m: "sent ?acts = [m]" "is_response_to i m"
    by (auto simp: one_response_def split: list.splits)
  from m(2) have k: "(\<exists>r. m = ReplyMsg i r) \<or> (\<exists>c t d. m = ErrorMsg i c t d)"
    by (cases m) (simp_all add: is_response_to_def)
  from o have n: "list_all is_notification (deferred ?acts)"
    by (simp add: one_response_def)
  from a m(1) k n
  show "\<exists>acts m.
        on_line env line (Some msg) = Continue acts
        \<and> acts = dispatch env i (get_prop msg ''method'') (get_prop msg ''params'')
        \<and> sent acts = [m]
        \<and> ((\<exists>r. m = ReplyMsg i r) \<or> (\<exists>c t d. m = ErrorMsg i c t d))
        \<and> list_all is_notification (deferred acts)"
    by blast
qed


theorem exactly_one_response_witness:
  "sent (dispatch sample_env (JNum 1) (JStr ''resources/read'') (JObj [(''uri'', JNum 5)]))
     = [ErrorMsg (JNum 1) (- 32603) ''Internal error'' (JObj [(''message'', JStr ''TypeError'')])]
   \<and> on_line sample_env ''{}'' (Some (JObj [(''id'', JNum 1), (''method'', JStr ''resources/read''),
                                        (''params'', JObj [(''uri'', JNum 5)])]))
     = Continue [Send (ErrorMsg (JNum 1) (- 32603) ''Internal error''
                         (JObj [(''message'', JStr ''TypeError'')]))]"
  using exactly_one_response
    [of "JObj [(''id'', JNum 1), (''method'', JStr ''resources/read''),
               (''params'', JObj [(''uri'', JNum 5)])]" "JNum 1" "''{}''" sample_env]
  by (simp add: trim_def is_space_def run_eval handleResourcesRead_def exn_message_def sample_env_def)

text \<open>
  C3. A notification (a request with no \<open>id\<close>) gets no error message, whatever fails in
  the handler. The program does not do this: only the default case of the switch and the
  \<^verbatim>\<open>catch\<close> look at \<open>id\<close>; the handlers send their errors without it. Shown on an
  unknown tool, invalid \<^verbatim>\<open>tools/call\<close> parameters, an invalid and an out-of-root URI and
  missing prompt arguments.
\<close>

theorem notification_receives_error:
  \<open>on_line env ''{"jsonrpc":"2.0","method":"tools/call","params":{"name":"nope"}}''
      (Some (JObj [(''jsonrpc'', JStr ''2.0''), (''method'', JStr ''tools/call''),
                   (''params'', JObj [(''name'', JStr ''nope'')])]))
     = Continue [Send (ErrorMsg JUndef (- 32601) (''Tool n'' @ [CHR 0xE3] @ ''o encontrada: nope'') JUndef)]
   \<and> stdout_text env [Send (ErrorMsg JUndef (- 32601) (''Tool n'' @ [CHR 0xE3] @ ''o encontrada: nope'') JUndef)]
     = ''{"jsonrpc":"2.0","error":{"code":-32601,"message":"Tool n'' @ [CHR 0xE3]
         @ ''o encontrada: nope"}}'' @ [CHR 0x5C, CHR ''n'']
   \<and> dispatch env JUndef (JStr ''tools/call'') (JObj [(''name'', JStr ''calculator_arithmetic'')])
     = [Send (ErrorMsg JUndef (- 32602) (''Par'' @ [CHR 0xE2] @ ''metros inv'' @ [CHR 0xE1] @ ''lidos'')
                (JObj [(''expected'', JStr ''numbers a,b'')]))]
   \<and> dispatch env JUndef (JStr ''resources/read'') (JObj [(''uri'', JStr ''http://example.org/a.txt'')])
     = [Send (ErrorMsg JUndef (- 32602) (''URI inv'' @ [CHR 0xE1] @ ''lida. Use file://'') JUndef)]
   \<and> dispatch env JUndef (JStr ''prompts/get'') (JObj [(''name'', JStr ''hello-template'')])
     = [Send (ErrorMsg JUndef (- 32602) ''Argumentos ausentes para o prompt''
                (JObj [(''required'', JArr [JStr ''name''])]))]
   \<and> dispatch sample_env JUndef (JStr ''resources/read'') (JObj [(''uri'', JStr ''file:///etc/passwd'')])
     = [Send (ErrorMsg JUndef (- 32001) (''Fora das ra'' @ [CHR 0xED] @ ''zes permitidas (roots).'') JUndef)]\<close>
proof -
  have a: \<open>on_line env ''{"jsonrpc":"2.0","method":"tools/call","params":{"name":"nope"}}''
      (Some (JObj [(''jsonrpc'', JStr ''2.0''), (''method'', JStr ''tools/call''),
                   (''params'', JObj [(''name'', JStr ''nope'')])]))
     = Continue [Send (ErrorMsg JUndef (- 32601) (''Tool n'' @ [CHR 0xE3] @ ''o encontrada: nope'') JUndef)]\<close>
    by (simp add: on_line_def trim_def is_space_def run_eval handleToolsCall_def)
  have b: \<open>stdout_text env [Send (ErrorMsg JUndef (- 32601) (''Tool n'' @ [CHR 0xE3] @ ''o encontrada: nope'') JUndef)]
     = ''{"jsonrpc":"2.0","error":{"code":-32601,"message":"Tool n'' @ [CHR 0xE3]
         @ ''o encontrada: nope"}}'' @ [CHR 0x5C, CHR ''n'']\<close>
    by (simp add: text_eval)
  have c: "dispatch env JUndef (JStr ''tools/call'') (JObj [(''name'', JStr ''calculator_arithmetic'')])
     = [Send (ErrorMsg JUndef (- 32602) (''Par'' @ [CHR 0xE2] @ ''metros inv'' @ [CHR 0xE1] @ ''lidos'')
                (JObj [(''expected'', JStr ''numbers a,b'')]))]"
    by (simp add: run_eval handleToolsCall_def)
  have d: "dispatch env JUndef (JStr ''resources/read'') (JObj [(''uri'', JStr ''http://example.org/a.txt'')])
     = [Send (ErrorMsg JUndef (- 32602) (''URI inv'' @ [CHR 0xE1] @ ''lida. Use file://'') JUndef)]"
    by (simp add: run_eval handleResourcesRead_def)
  have e: "dispatch env JUndef (JStr ''prompts/get'') (JObj [(''name'', JStr ''hello-template'')])
     = [Send (ErrorMsg JUndef (- 32602) ''Argumentos ausentes para o prompt''
                (JObj [(''required'', JArr [JStr ''name''])]))]"
    by (simp add: run_eval handlePromptsGet_def prompts_def)
  have f: "dispatch sample_env JUndef (JStr ''resources/read'') (JObj [(''uri'', JStr ''file:///etc/passwd'')])
     = [Send (ErrorMsg JUndef (- 32001) (''Fora das ra'' @ [CHR 0xED] @ ''zes permitidas (roots).'') JUndef)]"
    by (simp add: run_eval handleResourcesRead_def allowed_def ROOTS_def sample_env_def)
  show ?thesis using a b c d e f by blast
qed

section \<open>Handlers\<close>



text \<open>
  C5. The containment test of \<^verbatim>\<open>resources/read\<close> accepts a path exactly when it begins
  with one of the roots followed by the path separator: under the root \<open>/a/b\<close> the path
  \<open>/a/b/c\<close> is accepted and \<open>/a/bx\<close> is not. A \<open>file://\<close> URI whose path fails the
  test is answered by the error -32001, which is neither -32602 nor -32002.
\<close>

theorem containment:
  "(allowed sep roots filePath \<longleftrightarrow> (\<exists>root \<in> set roots. \<exists>rest. filePath = root @ sep @ rest))
   \<and> allowed ''/'' [''/a/b''] ''/a/b/c''
   \<and> \<not> allowed ''/'' [''/a/b''] ''/a/bx''
   \<and> (get_prop params ''uri'' = JStr (''file://'' @ filePath)
        \<and> \<not> allowed (path_sep env) (ROOTS env) filePath \<longrightarrow>
        handleResourcesRead env i params
          = ([Send (ErrorMsg i (- 32001)
               (''Fora das ra'' @ [CHR 0xED] @ ''zes permitidas (roots).'') JUndef)], None))
   \<and> (- 32001 :: int) \<noteq> - 32602 \<and> (- 32001 :: int) \<noteq> - 32002"
proof -
  have a: "allowed sep roots filePath \<longleftrightarrow> (\<exists>root \<in> set roots. \<exists>rest. filePath = root @ sep @ rest)"
    by (simp add: allowed_def list_ex_iff startsWith_iff)
  have b: "allowed ''/'' [''/a/b''] ''/a/b/c''" by (simp add: allowed_def)
  have c: "\<not> allowed ''/'' [''/a/b''] ''/a/bx''" by (simp add: allowed_def)
  have s: "startsWith (''file://'' @ filePath) ''file://''"
    unfolding startsWith_iff by blast
  have r: "replace_first (''file://'' @ filePath) ''file://'' [] = filePath"
    using replace_first_prefix [of "''file://''" filePath "[]"] by simp
  have d: "get_prop params ''uri'' = JStr (''file://'' @ filePath)
        \<and> \<not> allowed (path_sep env) (ROOTS env) filePath \<longrightarrow>
        handleResourcesRead env i params
          = ([Send (ErrorMsg i (- 32001)
               (''Fora das ra'' @ [CHR 0xED] @ ''zes permitidas (roots).'') JUndef)], None)"
    using s r by (simp add: handleResourcesRead_def Let_def error_def del: startsWith.simps replace_first.simps)
  show ?thesis using a b c d by simp
qed

theorem containment_witness:
  "allowed ''/'' [''/srv/demo-root''] ''/srv/demo-root/hello.txt''
   \<and> \<not> allowed (path_sep sample_env) (ROOTS sample_env) ''/srv/demo-rootx/hello.txt''
   \<and> handleResourcesRead sample_env (JNum 5)
        (JObj [(''uri'', JStr ''file:///srv/demo-rootx/hello.txt'')])
      = ([Send (ErrorMsg (JNum 5) (- 32001)
               (''Fora das ra'' @ [CHR 0xED] @ ''zes permitidas (roots).'') JUndef)], None)"
proof -
  have n: "\<not> allowed (path_sep sample_env) (ROOTS sample_env) ''/srv/demo-rootx/hello.txt''"
    by (simp add: allowed_def sample_env_def ROOTS_def)
  have e: "\<exists>root \<in> set [''/srv/demo-root'']. \<exists>rest. ''/srv/demo-root/hello.txt'' = root @ ''/'' @ rest"
    by simp
  note inside = containment [of "''/''" "[''/srv/demo-root'']" "''/srv/demo-root/hello.txt''" JUndef sample_env JUndef]
  note outside = containment [of "''/''" "[]" "''/srv/demo-rootx/hello.txt''"
             "JObj [(''uri'', JStr ''file:///srv/demo-rootx/hello.txt'')]" sample_env "JNum 5"]
  have w1: "allowed ''/'' [''/srv/demo-root''] ''/srv/demo-root/hello.txt''"
    by (rule iffD2 [OF conjunct1 [OF inside] e])
  have w3: "handleResourcesRead sample_env (JNum 5)
        (JObj [(''uri'', JStr ''file:///srv/demo-rootx/hello.txt'')])
      = ([Send (ErrorMsg (JNum 5) (- 32001)
               (''Fora das ra'' @ [CHR 0xED] @ ''zes permitidas (roots).'') JUndef)], None)"
    by (rule mp [OF conjunct1 [OF conjunct2 [OF conjunct2 [OF conjunct2 [OF outside]]]]])
       (simp add: n)
  show ?thesis using w1 n w3 by simp
qed

text \<open>
  C8. Every invalid-params error (-32602) of a handler carries a \<open>data\<close> field, also the
  one of \<^verbatim>\<open>resources/read\<close> for a missing or non-file URI. The program does not do
  this: that error is sent with no \<open>data\<close>, and its serialisation has no such member.
\<close>

theorem invalid_uri_error_without_data:
  \<open>handleResourcesRead env i (JObj [])
     = ([Send (ErrorMsg i (- 32602) (''URI inv'' @ [CHR 0xE1] @ ''lida. Use file://'') JUndef)], None)
   \<and> handleResourcesRead env i (JObj [(''uri'', JStr ''http://example.org/a.txt'')])
     = ([Send (ErrorMsg i (- 32602) (''URI inv'' @ [CHR 0xE1] @ ''lida. Use file://'') JUndef)], None)
   \<and> stdout_text env (dispatch env (JStr ''7'') (JStr ''resources/read'') (JObj []))
     = ''{"jsonrpc":"2.0","id":"7","error":{"code":-32602,"message":"URI inv''
         @ [CHR 0xE1] @ ''lida. Use file://"}}'' @ [CHR 0x5C, CHR ''n'']\<close>
  by (simp add: handleResourcesRead_def run_eval text_eval)



subsection \<open>Prompt rendering\<close>

lemma takeWhile_append_stop: "\<not> P c \<Longrightarrow> takeWhile P (u @ c # bs) = takeWhile P u"
  by (induction u) auto

lemma dropWhile_append_stop: "\<not> P c \<Longrightarrow> dropWhile P (u @ c # bs) = dropWhile P u @ c # bs"
  by (induction u) auto

lemma startsWith_close_append:
  assumes "c \<noteq> CHR ''}''"
  shows "startsWith (r @ c # bs) ''}}'' = startsWith r ''}}''"
proof (cases r)
  case Nil
  with assms show ?thesis by simp
next
  case (Cons y ys)
  with assms show ?thesis by (cases ys) auto
qed

lemma placeholder_append:
  assumes "c \<noteq> CHR ''{''" "c \<noteq> CHR ''}''" "\<not> is_word_char c"
  shows "(placeholder (t @ c # bs) \<noteq> None) = (placeholder t \<noteq> None)"
proof (cases t)
  case Nil
  with assms show ?thesis by (simp add: placeholder_def)
next
  case (Cons a u)
  note t = Cons
  show ?thesis
  proof (cases u)
    case Nil
    with t assms show ?thesis by (simp add: placeholder_def)
  next
    case (Cons a' w)
    with t assms show ?thesis
      by (simp add: placeholder_def Let_def takeWhile_append_stop dropWhile_append_stop
            startsWith_close_append)
  qed
qed

lemma has_placeholder_suffix:
  assumes "c \<noteq> CHR ''{''" "c \<noteq> CHR ''}''" "\<not> is_word_char c" "\<not> has_placeholder (c # bs)"
  shows "has_placeholder (s @ c # bs) = has_placeholder s"
proof (induction s)
  case Nil
  from assms(4) show ?case by simp
next
  case (Cons x xs)
  have "(placeholder ((x # xs) @ c # bs) \<noteq> None) = (placeholder (x # xs) \<noteq> None)"
    by (rule placeholder_append [OF assms(1-3)])
  with Cons show ?case by simp
qed

lemma has_placeholder_prefix:
  "CHR ''{'' \<notin> set a \<Longrightarrow> has_placeholder (a @ t) = has_placeholder t"
  by (induction a) (auto simp: placeholder_def)

lemma hello_tail_plain:
  "\<not> has_placeholder (''! Bem-vindo ao Servidor MCP de demonstra'' @ [CHR 0xE7, CHR 0xE3] @ ''o.'')"
  by (simp add: placeholder_def)

lemma has_placeholder_hello:
  "has_placeholder (''Ol'' @ [CHR 0xE1] @ '', '' @ s
       @ ''! Bem-vindo ao Servidor MCP de demonstra'' @ [CHR 0xE7, CHR 0xE3] @ ''o.'')
   = has_placeholder s"
proof -
  have "has_placeholder ((''Ol'' @ [CHR 0xE1] @ '', '') @ (s
       @ ''! Bem-vindo ao Servidor MCP de demonstra'' @ [CHR 0xE7, CHR 0xE3] @ ''o.''))
     = has_placeholder (s @ ''! Bem-vindo ao Servidor MCP de demonstra'' @ [CHR 0xE7, CHR 0xE3] @ ''o.'')"
    by (rule has_placeholder_prefix) simp
  also have "\<dots> = has_placeholder s"
    using hello_tail_plain
    by (simp add: has_placeholder_suffix is_word_char_def del: has_placeholder.simps)
  finally show ?thesis by simp
qed


text \<open>
  C9, as the specification states it: with every required argument present, the reply is the
  template with no \<open>{{...}}\<close> left for a declared variable, and a missing required
  argument gives an invalid-params error. This fails: an argument whose text is itself
  \<open>{{name}}\<close> is inserted as it is and stays in the reply; arguments that are a string
  give the internal error -32603, the \<^verbatim>\<open>in\<close> test having thrown; so does an argument
  with no string form.
\<close>

theorem placeholder_survives_rendering:
  "handlePromptsGet sample_env (JStr ''1'')
     (JObj [(''name'', JStr ''hello-template''), (''arguments'', JObj [(''name'', JStr ''{{name}}'')])])
   = ([Send (ReplyMsg (JStr ''1'') (JObj [(''prompt'', JObj
        [(''name'', JStr ''hello-template''),
         (''messages'', JArr [JObj [(''role'', JStr ''system''),
            (''content'', JStr (''Ol'' @ [CHR 0xE1] @ '', {{name}}! Bem-vindo ao Servidor MCP de demonstra''
          @ [CHR 0xE7, CHR 0xE3] @ ''o.''))]])])]))], None)
   \<and> has_placeholder (''Ol'' @ [CHR 0xE1] @ '', {{name}}! Bem-vindo ao Servidor MCP de demonstra''
          @ [CHR 0xE7, CHR 0xE3] @ ''o.'')
   \<and> dispatch sample_env (JStr ''2'') (JStr ''prompts/get'')
     (JObj [(''name'', JStr ''hello-template''), (''arguments'', JStr ''Luis'')])
   = [Send (ErrorMsg (JStr ''2'') (- 32603) ''Internal error'' (JObj [(''message'', JStr ''TypeError'')]))]
   \<and> dispatch sample_env (JStr ''3'') (JStr ''prompts/get'')
     (JObj [(''name'', JStr ''hello-template''),
            (''arguments'', JObj [(''name'', JObj [(''toString'', JNum 1)])])])
   = [Send (ErrorMsg (JStr ''3'') (- 32603) ''Internal error'' (JObj [(''message'', JStr ''TypeError'')]))]"
  by (simp add: run_eval prompt_eval exn_message_def sample_env_def)

text \<open>
  C9, amended. \<^verbatim>\<open>prompts/get\<close> of the registered prompt, with arguments that are an
  object or an array (an absent or \<^verbatim>\<open>null\<close> \<open>arguments\<close> counts as the empty object):
  if \<open>name\<close> is present and its value has the string form \<open>s\<close> (the empty string for
  \<^verbatim>\<open>null\<close>), the reply is one system-role message, the template with \<open>s\<close> in the
  place of the placeholder; \<open>s\<close> is not scanned again, so the content holds a placeholder
  exactly when \<open>s\<close> does. If \<open>name\<close> is absent, the reply is the error -32602 whose data
  lists the required keys. In any template a placeholder whose argument is absent or
  \<^verbatim>\<open>null\<close> renders as the empty string.
\<close>

theorem prompts_get_hello:
  assumes "get_prop params ''name'' = JStr ''hello-template''"
    and "vars = nullish_or (get_prop params ''arguments'') (JObj [])"
  shows "(js_in ''name'' vars = Inr True
            \<and> to_String (num_String env) (nullish_or (get_prop vars ''name'') (JStr [])) = Inr s \<longrightarrow>
          handlePromptsGet env i params
            = ([Send (ReplyMsg i (JObj [(''prompt'', JObj
                 [(''name'', JStr ''hello-template''),
                  (''messages'', JArr [JObj [(''role'', JStr ''system''),
                     (''content'', JStr (''Ol'' @ [CHR 0xE1] @ '', '' @ s
                        @ ''! Bem-vindo ao Servidor MCP de demonstra'' @ [CHR 0xE7, CHR 0xE3] @ ''o.''))]])])]))],
               None))
       \<and> has_placeholder (''Ol'' @ [CHR 0xE1] @ '', '' @ s
            @ ''! Bem-vindo ao Servidor MCP de demonstra'' @ [CHR 0xE7, CHR 0xE3] @ ''o.'')
          = has_placeholder s
       \<and> (js_in ''name'' vars = Inr False \<longrightarrow>
          handlePromptsGet env i params
            = ([Send (ErrorMsg i (- 32602) ''Argumentos ausentes para o prompt''
                 (JObj [(''required'', JArr [JStr ''name''])]))], None))
       \<and> (placeholder (c # cs) = Some (k, rest)
            \<and> (get_prop vs k = JUndef \<or> get_prop vs k = JNull) \<longrightarrow>
          render f (c # cs) vs = render f rest vs)"
proof -
  have a: "js_in ''name'' vars = Inr True
            \<and> to_String (num_String env) (nullish_or (get_prop vars ''name'') (JStr [])) = Inr s \<longrightarrow>
          handlePromptsGet env i params
            = ([Send (ReplyMsg i (JObj [(''prompt'', JObj
                 [(''name'', JStr ''hello-template''),
                  (''messages'', JArr [JObj [(''role'', JStr ''system''),
                     (''content'', JStr (''Ol'' @ [CHR 0xE1] @ '', '' @ s
                        @ ''! Bem-vindo ao Servidor MCP de demonstra'' @ [CHR 0xE7, CHR 0xE3] @ ''o.''))]])])]))],
               None)"
    using assms by (simp add: prompt_eval reply_def error_def throw_def Let_def)
  have b: "js_in ''name'' vars = Inr False \<longrightarrow>
          handlePromptsGet env i params
            = ([Send (ErrorMsg i (- 32602) ''Argumentos ausentes para o prompt''
                 (JObj [(''required'', JArr [JStr ''name''])]))], None)"
    using assms by (simp add: prompt_eval reply_def error_def throw_def Let_def)
  have c: "placeholder (c # cs) = Some (k, rest)
            \<and> (get_prop vs k = JUndef \<or> get_prop vs k = JNull) \<longrightarrow>
          render f (c # cs) vs = render f rest vs"
    by (auto split: sum.splits)
  show ?thesis
    using a b c has_placeholder_hello [of s] by blast
qed

theorem prompts_get_hello_witness:
  "handlePromptsGet sample_env (JNum 7)
     (JObj [(''name'', JStr ''hello-template''), (''arguments'', JObj [(''name'', JStr ''Luis'')])])
   = ([Send (ReplyMsg (JNum 7) (JObj [(''prompt'', JObj
        [(''name'', JStr ''hello-template''),
         (''messages'', JArr [JObj [(''role'', JStr ''system''),
            (''content'', JStr (''Ol'' @ [CHR 0xE1] @ '', Luis! Bem-vindo ao Servidor MCP de demonstra''
              @ [CHR 0xE7, CHR 0xE3] @ ''o.''))]])])]))], None)
   \<and> handlePromptsGet sample_env (JNum 8) (JObj [(''name'', JStr ''hello-template'')])
   = ([Send (ErrorMsg (JNum 8) (- 32602) ''Argumentos ausentes para o prompt''
        (JObj [(''required'', JArr [JStr ''name''])]))], None)
   \<and> render show_int ''{{x}}b'' (JObj []) = Inr ''b''"
proof -
  note given = prompts_get_hello
    [of "JObj [(''name'', JStr ''hello-template''), (''arguments'', JObj [(''name'', JStr ''Luis'')])]"
        "JObj [(''name'', JStr ''Luis'')]" sample_env "''Luis''" "JNum 7"
        "CHR ''{''" "''{x}}b''" "''x''" "''b''" "JObj []" show_int]
  note absent = prompts_get_hello
    [of "JObj [(''name'', JStr ''hello-template'')]" "JObj []" sample_env "[]" "JNum 8"
        "CHR ''{''" "''{x}}b''" "''x''" "''b''" "JObj []" show_int]
  have p: "placeholder ''{{x}}b'' = Some (''x'', ''b'')"
    by (simp add: placeholder_def is_word_char_def)
  have r: "render show_int ''b'' (JObj []) = Inr ''b''"
    by (simp add: placeholder_def)
  from given have w1: "handlePromptsGet sample_env (JNum 7)
     (JObj [(''name'', JStr ''hello-template''), (''arguments'', JObj [(''name'', JStr ''Luis'')])])
   = ([Send (ReplyMsg (JNum 7) (JObj [(''prompt'', JObj
        [(''name'', JStr ''hello-template''),
         (''messages'', JArr [JObj [(''role'', JStr ''system''),
            (''content'', JStr (''Ol'' @ [CHR 0xE1] @ '', Luis! Bem-vindo ao Servidor MCP de demonstra''
              @ [CHR 0xE7, CHR 0xE3] @ ''o.''))]])])]))], None)"
    by (simp add: inherited_def Object_prototype_keys_def)
  from absent have w2: "handlePromptsGet sample_env (JNum 8) (JObj [(''name'', JStr ''hello-template'')])
   = ([Send (ErrorMsg (JNum 8) (- 32602) ''Argumentos ausentes para o prompt''
        (JObj [(''required'', JArr [JStr ''name''])]))], None)"
    by (simp add: inherited_def Object_prototype_keys_def)
  from given p have w3: "render show_int ''{{x}}b'' (JObj []) = render show_int ''b'' (JObj [])"
    by (simp add: inherited_def Object_prototype_keys_def)
  show ?thesis using w1 w2 w3 r by simp
qed

section \<open>The structural validator: properties\<close>

lemma check_required_acc:
  "check_required v path keys (valid, errors)
   = (valid \<and> fst (check_required v path keys (True, [])),
      errors @ snd (check_required v path keys (True, [])))"
proof (induction keys arbitrary: valid errors)
  case Nil
  show ?case by simp
next
  case (Cons key keys)
  show ?case
    using Cons.IH [of False "errors @ [required_error_at path key]"]
          Cons.IH [of False "[required_error_at path key]"]
          Cons.IH [of valid errors]
    by simp
qed

lemma check_required_eq:
  "check_required v path keys (True, [])
   = (filter (\<lambda>k. js_in k v \<noteq> Inr True) keys = [],
      map (required_error_at path) (filter (\<lambda>k. js_in k v \<noteq> Inr True) keys))"
proof (induction keys)
  case Nil
  show ?case by simp
next
  case (Cons key keys)
  show ?case
    using Cons check_required_acc [of v path keys False "[required_error_at path key]"]
    by simp
qed

lemma validate_acc_all:
  "\<forall>errs. validateAgainstSchema (env :: 'n env) v so path errs
     = (fst (validateAgainstSchema env v so path []),
        errs @ snd (validateAgainstSchema env v so path []))"
  "\<forall>s. validate_properties env v props path s
     = (fst s \<and> fst (validate_properties env v props path (True, [])),
        snd s @ snd (validate_properties env v props path (True, [])))"
proof (induction env v so path "errors0 :: 'n schema_error list"
       and env v props path "st0 :: bool \<times> 'n schema_error list"
       rule: validateAgainstSchema_validate_properties.induct)
  case (1 env v path errors)
  show ?case by simp
next
  case (2 env v ty req props en path errors)
  show ?case
  proof (cases "ty = Some ''object''")
    case True
    note obj = True
    show ?thesis
    proof (cases "typeof v \<noteq> ''object'' \<or> v = JNull \<or> isArray v")
      case True
      with obj show ?thesis by simp
    next
      case False
      note ih = "2.IH" [OF obj False, rule_format]
      show ?thesis
      proof
        fix errs
        obtain b es where r: "check_required v path (case req of Some keys \<Rightarrow> keys | None \<Rightarrow> []) (True, []) = (b, es)"
          by (cases "check_required v path (case req of Some keys \<Rightarrow> keys | None \<Rightarrow> []) (True, [])")
        have r': "check_required v path (case req of Some keys \<Rightarrow> keys | None \<Rightarrow> []) (True, errs) = (b, errs @ es)"
          using check_required_acc [of v path _ True errs] r by simp
        show "validateAgainstSchema env v (Some (Schema ty req props en)) path errs
          = (fst (validateAgainstSchema env v (Some (Schema ty req props en)) path []),
             errs @ snd (validateAgainstSchema env v (Some (Schema ty req props en)) path []))"
          using obj False ih [of "(b, errs @ es)"] ih [of "(b, es)"]
          by (simp add: r r')
      qed
    qed
  next
    case False
    then show ?thesis
      by (simp add: check_enum_def check_type_def split: option.splits)
  qed
next
  case (3 env v path st)
  show ?case by simp
next
  case (4 env v key childSchema rest path valid errors)
  show ?case
  proof (cases "js_in key v = Inr True")
    case True
    obtain x y where c0: "(x, y) = validateAgainstSchema env (get_prop v key) childSchema (child_path path key) errors"
      by (cases "validateAgainstSchema env (get_prop v key) childSchema (child_path path key) errors") simp
    note ih1 = "4.IH"(1) [OF True, rule_format]
    note ih2 = "4.IH"(2) [OF True c0, rule_format]
    obtain ok es where c: "validateAgainstSchema env (get_prop v key) childSchema (child_path path key) [] = (ok, es)"
      by (cases "validateAgainstSchema env (get_prop v key) childSchema (child_path path key) []")
    show ?thesis
    proof
      fix s :: "bool \<times> 'n schema_error list"
      obtain b e where s: "s = (b, e)" by (cases s)
      have c': "validateAgainstSchema env (get_prop v key) childSchema (child_path path key) e = (ok, e @ es)"
        using ih1 [of e] c by simp
      show "validate_properties env v ((key, childSchema) # rest) path s =
         (fst s \<and> fst (validate_properties env v ((key, childSchema) # rest) path (True, [])),
          snd s @ snd (validate_properties env v ((key, childSchema) # rest) path (True, [])))"
        using True ih2 [of "(if \<not> ok then False else b, e @ es)"] ih2 [of "(if \<not> ok then False else True, es)"]
        by (auto simp add: s c c')
    qed
  next
    case False
    note ih3 = "4.IH"(3) [OF False, rule_format]
    show ?thesis
    proof
      fix s :: "bool \<times> 'n schema_error list"
      obtain b e where s: "s = (b, e)" by (cases s)
      show "validate_properties env v ((key, childSchema) # rest) path s =
         (fst s \<and> fst (validate_properties env v ((key, childSchema) # rest) path (True, [])),
          snd s @ snd (validate_properties env v ((key, childSchema) # rest) path (True, [])))"
        using False ih3 [of "(b, e)"] ih3 [of "(True, [])"]
        by (simp add: s)
    qed
  qed
qed


lemma validate_acc:
  "validateAgainstSchema env v so path errs
     = (fst (validateAgainstSchema env v so path []),
        errs @ snd (validateAgainstSchema env v so path []))"
  by (rule validate_acc_all(1) [rule_format])

lemma validate_properties_acc:
  "validate_properties env v props path (b, e)
     = (b \<and> fst (validate_properties env v props path (True, [])),
        e @ snd (validate_properties env v props path (True, [])))"
  using validate_acc_all(2) [rule_format, of env v props path "(b, e)"] by simp

lemma replace_all_char_append:
  "replace_all_char (a @ b) c r = replace_all_char a c r @ replace_all_char b c r"
  by (induction a) auto

lemma escapeJsonPointer_tokens: "escapeJsonPointer str = concat (map pointer_token str)"
  unfolding escapeJsonPointer_def
  by (induction str) (auto simp: pointer_token_def replace_all_char_append)

lemma child_path_eq: "child_path path key = path @ ''/'' @ concat (map pointer_token key)"
  by (simp add: child_path_def escapeJsonPointer_tokens)

lemma validate_properties_eq:
  "validate_properties env v properties path (True, [])
   = (list_all fst (sub_results env v properties path),
      concat (map snd (sub_results env v properties path)))"
proof (induction properties)
  case Nil
  show ?case by (simp add: sub_results_def)
next
  case (Cons p properties)
  obtain key childSchema where p: "p = (key, childSchema)" by (cases p)
  show ?case
  proof (cases "js_in key v = Inr True")
    case True
    obtain ok es where c:
      "validateAgainstSchema env (get_prop v key) childSchema (child_path path key) [] = (ok, es)"
      by (cases "validateAgainstSchema env (get_prop v key) childSchema (child_path path key) []")
    have c': "validateAgainstSchema env (get_prop v key) childSchema
                (path @ ''/'' @ concat (map pointer_token key)) [] = (ok, es)"
      using c by (simp add: child_path_eq)
    have "validate_properties env v (p # properties) path (True, [])
          = validate_properties env v properties path (ok, es)"
      using True c by (auto simp: p)
    also have "\<dots> = (ok \<and> fst (validate_properties env v properties path (True, [])),
                     es @ snd (validate_properties env v properties path (True, [])))"
      by (rule validate_properties_acc)
    finally show ?thesis
      using Cons True c' by (simp add: p sub_results_def)
  next
    case False
    with Cons show ?thesis by (simp add: p sub_results_def)
  qed
qed

text \<open>
  C6. Under a schema of type \<open>object\<close>, a value that is not an object (\<^verbatim>\<open>null\<close> and
  arrays are not) gets exactly one \<open>type\<close> error and nothing else is checked. Otherwise
  every required key that the value lacks gets one \<open>required\<close> error, all of them
  recorded; every declared property that the value has is validated at the path extended
  by a slash and the escaped key (\<open>~\<close> as \<open>~0\<close>, \<open>/\<close> as \<open>~1\<close>); and the verdict is
  the conjunction of these results. A value has a key, and lacks it, as \<^verbatim>\<open>key in value\<close>
  says: own properties and the members inherited from \<^verbatim>\<open>Object.prototype\<close> count.
\<close>

theorem object_schema_validation:
  "validateAgainstSchema env v (Some (Schema (Some ''object'') req props en)) path errors
   = (if typeof v \<noteq> ''object'' \<or> v = JNull \<or> isArray v
      then (False, errors @ [type_error_at path ''object''])
      else
        (let missing = filter (\<lambda>key. js_in key v \<noteq> Inr True)
                         (case req of Some keys \<Rightarrow> keys | None \<Rightarrow> []);
             sub = sub_results env v (case props of Some ps \<Rightarrow> ps | None \<Rightarrow> []) path
         in (missing = [] \<and> list_all fst sub,
             errors @ map (required_error_at path) missing @ concat (map snd sub))))
   \<and> child_path path key = path @ ''/'' @ escapeJsonPointer key
   \<and> escapeJsonPointer key = concat (map pointer_token key)"
proof -
  let ?keys = "case req of Some keys \<Rightarrow> keys | None \<Rightarrow> []"
  let ?props = "case props of Some ps \<Rightarrow> ps | None \<Rightarrow> []"
  have r: "check_required v path ?keys (True, errors)
           = (filter (\<lambda>key. js_in key v \<noteq> Inr True) ?keys = [],
              errors @ map (required_error_at path) (filter (\<lambda>key. js_in key v \<noteq> Inr True) ?keys))"
    using check_required_acc [of v path ?keys True errors] check_required_eq [of v path ?keys]
    by simp
  have a: "validateAgainstSchema env v (Some (Schema (Some ''object'') req props en)) path errors
   = (if typeof v \<noteq> ''object'' \<or> v = JNull \<or> isArray v
      then (False, errors @ [type_error_at path ''object''])
      else
        (let missing = filter (\<lambda>key. js_in key v \<noteq> Inr True) ?keys;
             sub = sub_results env v ?props path
         in (missing = [] \<and> list_all fst sub,
             errors @ map (required_error_at path) missing @ concat (map snd sub))))"
    using validate_properties_acc [of env v ?props path]
    by (simp add: r validate_properties_eq Let_def)
  have b: "child_path path key = path @ ''/'' @ escapeJsonPointer key"
    by (simp add: child_path_def)
  show ?thesis
    using a b escapeJsonPointer_tokens [of key] by blast
qed


theorem object_schema_validation_witness:
  "validateAgainstSchema sample_env (JObj [(''a/b~'', JStr ''x'')])
     (Some (Schema (Some ''object'') (Some [''q'', ''toString'', ''r''])
        (Some [(''a/b~'', Some (Schema (Some ''number'') None None None)),
               (''c'', Some (Schema (Some ''string'') None None None)),
               (''valueOf'', Some (Schema (Some ''string'') None None None))]) None)) [] []
   = (False, [required_error_at [] ''q'', required_error_at [] ''r'',
              type_error_at ''/a~1b~0'' ''number'', type_error_at ''/valueOf'' ''string''])
   \<and> validateAgainstSchema sample_env (JArr [])
     (Some (Schema (Some ''object'') (Some [''q'']) None None)) ''/p'' []
   = (False, [type_error_at ''/p'' ''object''])"
  using
    object_schema_validation [of sample_env "JObj [(''a/b~'', JStr ''x'')]"
      "Some [''q'', ''toString'', ''r'']"
      "Some [(''a/b~'', Some (Schema (Some ''number'') None None None)),
             (''c'', Some (Schema (Some ''string'') None None None)),
             (''valueOf'', Some (Schema (Some ''string'') None None None))]" None "[]" "[]" "[]"]
    object_schema_validation [of sample_env "JArr []" "Some [''q'']" None None "''/p''" "[]" "[]"]
  by (simp add: sub_results_def pointer_token_def check_type_def check_enum_def isArray_def isNaN_def
        inherited_def Object_prototype_keys_def)

text \<open>
  C7, as the specification states it: a value that equals no member of \<open>enum\<close> gets an
  \<open>enum\<close> error, in addition to any \<open>type\<close> error, also under a schema of type
  \<open>object\<close>. This fails: under type \<open>object\<close> the validator returns before the
  \<open>enum\<close> test, for an object (no error at all) and for any other value (the \<open>type\<close>
  error alone).
\<close>

theorem enum_skipped_for_object:
  "\<not> js_includes sample_env [JStr ''x''] (JObj [])
   \<and> validateAgainstSchema sample_env (JObj [])
        (Some (Schema (Some ''object'') None None (Some [JStr ''x'']))) [] []
      = (True, [])
   \<and> \<not> js_includes sample_env [JStr ''x''] (JStr ''y'')
   \<and> validateAgainstSchema sample_env (JStr ''y'')
        (Some (Schema (Some ''object'') None None (Some [JStr ''x'']))) [] []
      = (False, [type_error_at [] ''object''])"
  by (simp add: js_includes_def isArray_def)


text \<open>
  C7, amended. Under a schema whose type is not \<open>object\<close>, a value that equals no member
  of \<open>enum\<close> is invalid and gets an \<open>enum\<close> error, recorded after the \<open>type\<close> error
  of the same value when there is one.
\<close>

theorem enum_additive_outside_object:
  assumes "ty \<noteq> Some ''object''" and "\<not> js_includes env vs v"
  shows "validateAgainstSchema env v (Some (Schema ty req props (Some vs))) path errors
    = (False,
       errors
       @ (if ty = Some ''number'' \<and> (typeof v \<noteq> ''number'' \<or> isNaN env v)
          then [type_error_at path ''number'']
          else if ty = Some ''string'' \<and> typeof v \<noteq> ''string''
          then [type_error_at path ''string'']
          else [])
       @ [enum_error_at path vs])"
  using assms by (simp add: check_enum_def check_type_def)


theorem enum_additive_witness:
  "validateAgainstSchema sample_env (JNum 5)
     (Some (Schema (Some ''string'') None None
        (Some [JStr ''add'', JStr ''sub'', JStr ''mul'', JStr ''div'']))) ''/op'' []
   = (False, [type_error_at ''/op'' ''string'',
              enum_error_at ''/op'' [JStr ''add'', JStr ''sub'', JStr ''mul'', JStr ''div'']])"
  using enum_additive_outside_object
    [of "Some ''string''" sample_env "[JStr ''add'', JStr ''sub'', JStr ''mul'', JStr ''div'']"
        "JNum 5" None None "''/op''" "[]"]
  by (simp add: js_includes_def)

end
